theory Spec2Isabelle
  imports Complex_Main
begin

section \<open>Strings\<close>

text \<open>
  Python strings are modelled as \<open>string\<close>. Three operations of the source are needed:
  \<open>s.startswith(p)\<close>, \<open>sub in s\<close> and \<open>s.replace(old, new)\<close>. The last one scans
  \<open>s\<close> from the left, replaces every occurrence of \<open>old\<close> it meets and goes on
  behind the occurrence; the text it has put in is never scanned again. For an empty
  \<open>old\<close> Python puts \<open>new\<close> in front of every character and at the end.
\<close>

fun startswith :: "string \<Rightarrow> string \<Rightarrow> bool" where
  "startswith s [] = True"
| "startswith [] (p # ps) = False"
| "startswith (c # cs) (p # ps) = (c = p \<and> startswith cs ps)"

fun str_contains :: "string \<Rightarrow> string \<Rightarrow> bool" where
  "str_contains [] sub = (sub = [])"
| "str_contains (c # cs) sub = (startswith (c # cs) sub \<or> str_contains cs sub)"

function str_replace :: "string \<Rightarrow> string \<Rightarrow> string \<Rightarrow> string" where
  "str_replace old new s =
     (if old = [] then new @ concat (map (\<lambda>c. c # new) s)
      else if s = [] then []
      else if startswith s old then new @ str_replace old new (drop (length old) s)
      else hd s # str_replace old new (tl s))"
  by pat_completeness auto
termination
  by (relation "measure (\<lambda>(old, new, s). length s)") auto

declare str_replace.simps [simp del]

section \<open>JSON values\<close>

text \<open>
  What \<open>response.json()\<close> gives and what a response body is built from. An object is
  the list of its members; \<open>map_of\<close> is the lookup by key.
\<close>

datatype json =
    JNull
  | JBool bool
  | JInt int
  | JFloat real
  | JStr string
  | JArr "json list"
  | JObj "(string \<times> json) list"

section \<open>The models of the source\<close>

record FaceOption =
  id :: string
  name :: string
  previewImage :: string
  previewVideo :: "string option"
  createdAt :: "int option"

record AgentCreate =
  face_id :: string
  name :: string
  first_message :: "string option"
  prompt :: "string option"
  voice_provider :: "string option"
  voice_id :: "string option"
  voice_model :: "string option"
  language :: "string option"
  llm_endpoint :: "string option"
  max_idle_time :: "int option"
  max_session_length :: "int option"

record AgentResponse =
  id :: string
  face_id :: string
  name :: string

record SessionTokenRequest =
  simliAPIKey :: string
  ttsAPIKey :: string

record SessionTokenResponse =
  session_token :: string

section \<open>Configuration, upstream service and outbound calls\<close>

text \<open>
  The two module-level keys of the source form the configuration. The upstream service is
  a function from the request sent to the response received, \<open>None\<close> when the HTTP client
  raises instead of returning a response. Every call sent is appended to the \<open>sent\<close> log
  of the world, the only state a handler can touch.
\<close>

record config =
  SIMLI_API_KEY :: string
  TTS_API_KEY :: string

datatype http_method = GET | POST

record http_request =
  verb :: http_method
  url :: string
  headers :: "(string \<times> string) list"
  json_payload :: "json option"

record httpx_response =
  status_code :: int
  "text" :: string
  json :: "json option"

type_synonym upstream = "http_request \<Rightarrow> httpx_response option"

record world =
  sent :: "http_request list"

datatype failure =
    HTTPException int string
  | TransportError
  | JSONDecodeError
  | ResponseValidationError

record http_reply =
  status :: int
  content :: json

record html_reply =
  html_status :: int
  body :: string

definition client_send :: "upstream \<Rightarrow> http_request \<Rightarrow> world \<Rightarrow> httpx_response option \<times> world" where
  "client_send up req w = (up req, w\<lparr>sent := sent w @ [req]\<rparr>)"

section \<open>Agent creation\<close>

text \<open>
  \<open>create_agent\<close> of the source: the id is \<open>f"agent-{agent.face_id[:8]}"\<close>; a slice
  \<open>[:8]\<close> of a shorter string is the whole string. The route declares
  \<open>response_model=AgentResponse, status_code=201\<close>.
\<close>

definition create_agent :: "upstream \<Rightarrow> AgentCreate \<Rightarrow> world \<Rightarrow> (failure + AgentResponse) \<times> world" where
  "create_agent up agent w =
     (Inr \<lparr>id = ''agent-'' @ take 8 (AgentCreate.face_id agent),
           face_id = AgentCreate.face_id agent,
           name = AgentCreate.name agent\<rparr>, w)"

definition AgentResponse_json :: "AgentResponse \<Rightarrow> json" where
  "AgentResponse_json r =
     JObj [(''id'', JStr (AgentResponse.id r)),
           (''face_id'', JStr (AgentResponse.face_id r)),
           (''name'', JStr (AgentResponse.name r))]"

definition post_api_agent :: "upstream \<Rightarrow> AgentCreate \<Rightarrow> world \<Rightarrow> (failure + http_reply) \<times> world" where
  "post_api_agent up agent w =
     (case create_agent up agent w of
        (Inl e, w') \<Rightarrow> (Inl e, w')
      | (Inr r, w') \<Rightarrow> (Inr \<lparr>status = 201, content = AgentResponse_json r\<rparr>, w'))"

section \<open>Response models\<close>

text \<open>
  The routes for faces and session tokens declare \<open>response_model=List[FaceOption]\<close> and
  \<open>response_model=SessionTokenResponse\<close>: the web framework validates what the handler
  returns against the model and sends the model's fields, and only those; a value that
  does not validate is a server-side error and nothing of it is sent. The model classes
  are in the source, the validator is the framework's. A string is accepted for a
  \<open>str\<close> field, an integer for an \<open>int\<close> field, an object for a model, \<open>null\<close> or
  absence for an \<open>Optional\<close> field with default \<open>None\<close>; what the installed validator
  does with a value of another type (it may convert it or reject it) is the parameter
  \<open>pydantic\<close>.
\<close>

record pydantic =
  lax_str :: "json \<Rightarrow> string option"
  lax_int :: "json \<Rightarrow> int option"
  lax_dict :: "json \<Rightarrow> (string \<times> json) list option"

fun validate_str :: "pydantic \<Rightarrow> json \<Rightarrow> string option" where
  "validate_str P (JStr s) = Some s"
| "validate_str P v = lax_str P v"

fun validate_int :: "pydantic \<Rightarrow> json \<Rightarrow> int option" where
  "validate_int P (JInt i) = Some i"
| "validate_int P v = lax_int P v"

fun validate_dict :: "pydantic \<Rightarrow> json \<Rightarrow> (string \<times> json) list option" where
  "validate_dict P (JObj fs) = Some fs"
| "validate_dict P v = lax_dict P v"

fun required :: "(json \<Rightarrow> 'a option) \<Rightarrow> json option \<Rightarrow> 'a option" where
  "required f None = None"
| "required f (Some v) = f v"

fun optional :: "(json \<Rightarrow> 'a option) \<Rightarrow> json option \<Rightarrow> 'a option option" where
  "optional f None = Some None"
| "optional f (Some JNull) = Some None"
| "optional f (Some v) = map_option Some (f v)"

definition validate_FaceOption :: "pydantic \<Rightarrow> json \<Rightarrow> FaceOption option" where
  "validate_FaceOption P v =
     Option.bind (validate_dict P v) (\<lambda>fs.
     Option.bind (required (validate_str P) (map_of fs ''id'')) (\<lambda>i.
     Option.bind (required (validate_str P) (map_of fs ''name'')) (\<lambda>n.
     Option.bind (required (validate_str P) (map_of fs ''previewImage'')) (\<lambda>p.
     Option.bind (optional (validate_str P) (map_of fs ''previewVideo'')) (\<lambda>pv.
     Option.bind (optional (validate_int P) (map_of fs ''createdAt'')) (\<lambda>ca.
       Some \<lparr>FaceOption.id = i, name = n, previewImage = p, previewVideo = pv,
             createdAt = ca\<rparr>))))))"

fun validate_list :: "(json \<Rightarrow> 'a option) \<Rightarrow> json \<Rightarrow> 'a list option" where
  "validate_list f (JArr xs) = those (map f xs)"
| "validate_list f v = None"

definition validate_SessionTokenResponse :: "pydantic \<Rightarrow> json \<Rightarrow> SessionTokenResponse option" where
  "validate_SessionTokenResponse P v =
     Option.bind (validate_dict P v) (\<lambda>fs.
     Option.bind (required (validate_str P) (map_of fs ''session_token'')) (\<lambda>t.
       Some \<lparr>session_token = t\<rparr>))"

definition FaceOption_json :: "FaceOption \<Rightarrow> json" where
  "FaceOption_json f =
     JObj [(''id'', JStr (FaceOption.id f)),
           (''name'', JStr (FaceOption.name f)),
           (''previewImage'', JStr (previewImage f)),
           (''previewVideo'', case previewVideo f of None \<Rightarrow> JNull | Some s \<Rightarrow> JStr s),
           (''createdAt'', case createdAt f of None \<Rightarrow> JNull | Some i \<Rightarrow> JInt i)]"

definition SessionTokenResponse_json :: "SessionTokenResponse \<Rightarrow> json" where
  "SessionTokenResponse_json r = JObj [(''session_token'', JStr (session_token r))]"

section \<open>Face listing\<close>

text \<open>
  \<open>get_faces\<close> of the source sends one GET with the configured key in the \<open>api-key\<close>
  header, raises \<open>HTTPException\<close> with the upstream status and text when the status is
  not 200, and returns \<open>response.json()\<close> otherwise.
\<close>

definition faces_request :: "config \<Rightarrow> http_request" where
  "faces_request cfg =
     \<lparr>verb = GET, url = ''https://api.simli.ai/getFaceIDs?getPublic=false'',
      headers = [(''api-key'', SIMLI_API_KEY cfg)], json_payload = None\<rparr>"

definition get_faces :: "config \<Rightarrow> upstream \<Rightarrow> world \<Rightarrow> (failure + json) \<times> world" where
  "get_faces cfg up w =
     (case client_send up (faces_request cfg) w of
        (None, w') \<Rightarrow> (Inl TransportError, w')
      | (Some response, w') \<Rightarrow>
          if status_code response \<noteq> 200
          then (Inl (HTTPException (status_code response)
                       (''Error fetching faces from Simli API: '' @ text response)), w')
          else (case json response of
                  None \<Rightarrow> (Inl JSONDecodeError, w')
                | Some j \<Rightarrow> (Inr j, w')))"

definition get_api_faces :: "pydantic \<Rightarrow> config \<Rightarrow> upstream \<Rightarrow> world \<Rightarrow> (failure + http_reply) \<times> world" where
  "get_api_faces P cfg up w =
     (case get_faces cfg up w of
        (Inl e, w') \<Rightarrow> (Inl e, w')
      | (Inr j, w') \<Rightarrow>
          (case validate_list (validate_FaceOption P) j of
             None \<Rightarrow> (Inl ResponseValidationError, w')
           | Some faces \<Rightarrow> (Inr \<lparr>status = 200, content = JArr (map FaceOption_json faces)\<rparr>, w')))"

section \<open>Session tokens\<close>

text \<open>
  \<open>create_e2e_session_token\<close> of the source sends one POST whose JSON body holds the two
  keys of the caller, and treats the response as \<open>get_faces\<close> does.
\<close>

definition token_request :: "SessionTokenRequest \<Rightarrow> http_request" where
  "token_request request =
     \<lparr>verb = POST, url = ''https://api.simli.ai/createE2ESessionToken'', headers = [],
      json_payload = Some (JObj [(''simliAPIKey'', JStr (simliAPIKey request)),
                                 (''ttsAPIKey'', JStr (ttsAPIKey request))])\<rparr>"

definition create_e2e_session_token ::
  "upstream \<Rightarrow> SessionTokenRequest \<Rightarrow> world \<Rightarrow> (failure + json) \<times> world" where
  "create_e2e_session_token up request w =
     (case client_send up (token_request request) w of
        (None, w') \<Rightarrow> (Inl TransportError, w')
      | (Some response, w') \<Rightarrow>
          if status_code response \<noteq> 200
          then (Inl (HTTPException (status_code response)
                       (''Error creating session token: '' @ text response)), w')
          else (case json response of
                  None \<Rightarrow> (Inl JSONDecodeError, w')
                | Some j \<Rightarrow> (Inr j, w')))"

definition post_api_createE2ESessionToken ::
  "pydantic \<Rightarrow> upstream \<Rightarrow> SessionTokenRequest \<Rightarrow> world \<Rightarrow> (failure + http_reply) \<times> world" where
  "post_api_createE2ESessionToken P up request w =
     (case create_e2e_session_token up request w of
        (Inl e, w') \<Rightarrow> (Inl e, w')
      | (Inr j, w') \<Rightarrow>
          (case validate_SessionTokenResponse P j of
             None \<Rightarrow> (Inl ResponseValidationError, w')
           | Some r \<Rightarrow> (Inr \<lparr>status = 200, content = SessionTokenResponse_json r\<rparr>, w')))"

section \<open>Start of the process\<close>

text \<open>
  The module reads both keys with \<open>os.getenv\<close> once \<open>load_dotenv()\<close> has run;
  \<open>environ\<close> is the environment \<open>os.getenv\<close> reads. \<open>if not KEY\<close> holds for a missing
  and for an empty value; the key is then set to a fixed text and a warning is printed.
  The result is the configuration and the lines printed.
\<close>

fun falsy :: "string option \<Rightarrow> bool" where
  "falsy None = True"
| "falsy (Some s) = (s = [])"

definition startup :: "(string \<rightharpoonup> string) \<Rightarrow> config \<times> string list" where
  "startup environ =
     (let simli = environ ''SIMLI_API_KEY'';
          tts = environ ''TTS_API_KEY'';
          (simli', out1) =
            (if falsy simli
             then (''YOUR_API_KEY_HERE'',
                   [''Warning: SIMLI_API_KEY not found in environment variables. Using default value for testing.''])
             else (the simli, []));
          (tts', out2) =
            (if falsy tts
             then (''YOUR_TTS_API_KEY_HERE'',
                   [''Warning: TTS_API_KEY not found in environment variables. Using default value for testing.''])
             else (the tts, []))
      in (\<lparr>SIMLI_API_KEY = simli', TTS_API_KEY = tts'\<rparr>, out1 @ out2))"

section \<open>The page\<close>

text \<open>
  \<open>get_html\<close> of the source returns one string literal on which
  \<open>.replace("SIMLI_API_KEY", SIMLI_API_KEY).replace("TTS_API_KEY", TTS_API_KEY)\<close> is
  called. The literal is given line by line, as in the source; it is cut at the three
  places where a key's name stands, each between two quotation marks.
\<close>

definition join_lines :: "string list \<Rightarrow> string" where
  "join_lines ls = concat (map (\<lambda>l. l @ [CHR 0x0A]) ls)"

definition html_lines_head :: "string list" where
  \<open>html_lines_head = [
    ''    <!DOCTYPE html>'',
    ''    <html>'',
    ''    <head>'',
    ''        <title>Simli Face Selection</title>'',
    ''        <style>'',
    ''            body {'',
    ''                font-family: Arial, sans-serif;'',
    ''                max-width: 1200px;'',
    ''                margin: 0 auto;'',
    ''                padding: 20px;'',
    ''                background-color: #f9f9f9;'',
    ''            }'',
    ''            h1 {'',
    ''                color: #333;'',
    ''                text-align: center;'',
    ''                margin-bottom: 30px;'',
    ''            }'',
    ''            .container {'',
    ''                display: flex;'',
    ''                flex-direction: column;'',
    ''                gap: 20px;'',
    ''            }'',
    ''            .two-column {'',
    ''                display: flex;'',
    ''                gap: 20px;'',
    ''            }'',
    ''            .left-column {'',
    ''                flex: 1;'',
    ''            }'',
    ''            .right-column {'',
    ''                flex: 1;'',
    ''            }'',
    ''            .selection-container, .form-container, .session-container {'',
    ''                background-color: white;'',
    ''                border-radius: 8px;'',
    ''                padding: 20px;'',
    ''                box-shadow: 0 2px 4px rgba(0,0,0,0.1);'',
    ''                margin-bottom: 20px;'',
    ''            }'',
    ''            '',
    ''            .form-group {'',
    ''                margin-bottom: 15px;'',
    ''            }'',
    ''            '',
    ''            label {'',
    ''                display: block;'',
    ''                margin-bottom: 5px;'',
    ''                font-weight: bold;'',
    ''            }'',
    ''            '',
    ''            input, select, textarea {'',
    ''                width: 100%;'',
    ''                padding: 10px;'',
    ''                border: 1px solid #ddd;'',
    ''                border-radius: 4px;'',
    ''                font-size: 14px;'',
    ''            }'',
    ''            '',
    ''            textarea {'',
    ''                min-height: 80px;'',
    ''                resize: vertical;'',
    ''            }'',
    ''            '',
    ''            .required-field::after {'',
    ''                content: " *";'',
    ''                color: #c62828;'',
    ''            }'',
    ''            '',
    ''            .submit-button {'',
    ''                background-color: #4CAF50;'',
    ''                color: white;'',
    ''                border: none;'',
    ''                padding: 12px 20px;'',
    ''                border-radius: 4px;'',
    ''                cursor: pointer;'',
    ''                font-size: 16px;'',
    ''                margin-top: 15px;'',
    ''            }'',
    ''            '',
    ''            .success-container {'',
    ''                background-color: #e8f5e9;'',
    ''                border-left: 4px solid #4CAF50;'',
    ''                padding: 15px;'',
    ''                margin-top: 20px;'',
    ''                border-radius: 4px;'',
    ''            }'',
    ''            '',
    ''            .agent-details, .token-details {'',
    ''                margin-top: 10px;'',
    ''                background-color: #f5f5f5;'',
    ''                padding: 15px;'',
    ''                border-radius: 4px;'',
    ''                font-family: monospace;'',
    ''            }'',
    ''            '',
    ''            .agent-id, .token-value {'',
    ''                font-weight: bold;'',
    ''                color: #2e7d32;'',
    ''                word-break: break-all;'',
    ''            }'',
    ''            '',
    ''            .copy-button {'',
    ''                background-color: #2196F3;'',
    ''                color: white;'',
    ''                border: none;'',
    ''                padding: 5px 10px;'',
    ''                border-radius: 4px;'',
    ''                cursor: pointer;'',
    ''                font-size: 12px;'',
    ''                margin-left: 10px;'',
    ''            }'',
    ''            '',
    ''            .copy-button:hover {'',
    ''                background-color: #0b7dda;'',
    ''            }'',
    ''            select {'',
    ''                width: 100%;'',
    ''                padding: 12px;'',
    ''                margin-bottom: 20px;'',
    ''                border-radius: 4px;'',
    ''                border: 1px solid #ddd;'',
    ''                font-size: 16px;'',
    ''            }'',
    ''            .faces-grid {'',
    ''                display: flex;'',
    ''                justify-content: center;'',
    ''                margin-top: 20px;'',
    ''                flex-wrap: wrap;'',
    ''                gap: 20px;'',
    ''            }'',
    ''            .face-card {'',
    ''                width: 300px;'',
    ''                border: 1px solid #eee;'',
    ''                border-radius: 8px;'',
    ''                overflow: hidden;'',
    ''                box-shadow: 0 2px 8px rgba(0,0,0,0.1);'',
    ''                transition: transform 0.2s, box-shadow 0.2s;'',
    ''                cursor: pointer;'',
    ''            }'',
    ''            .face-card:hover {'',
    ''                transform: translateY(-5px);'',
    ''                box-shadow: 0 5px 15px rgba(0,0,0,0.1);'',
    ''            }'',
    ''            .face-card.selected {'',
    ''                border: 3px solid #4CAF50;'',
    ''            }'',
    ''            .face-image {'',
    ''                width: 100%;'',
    ''                height: 200px;'',
    ''                object-fit: cover;'',
    ''            }'',
    ''            .face-info {'',
    ''                padding: 15px;'',
    ''            }'',
    ''            .face-name {'',
    ''                font-weight: bold;'',
    ''                font-size: 18px;'',
    ''                margin-bottom: 5px;'',
    ''            }'',
    ''            .face-id {'',
    ''                color: #777;'',
    ''                font-size: 12px;'',
    ''                word-break: break-all;'',
    ''            }'',
    ''            .loading {'',
    ''                text-align: center;'',
    ''                padding: 40px;'',
    ''                font-size: 18px;'',
    ''                color: #666;'',
    ''            }'',
    ''            .error {'',
    ''                background-color: #ffebee;'',
    ''                color: #c62828;'',
    ''                padding: 15px;'',
    ''                border-radius: 4px;'',
    ''                margin-bottom: 20px;'',
    ''                text-align: center;'',
    ''            }'',
    ''            .video-container {'',
    ''                margin-top: 30px;'',
    ''                background-color: white;'',
    ''                border-radius: 8px;'',
    ''                padding: 20px;'',
    ''                box-shadow: 0 2px 4px rgba(0,0,0,0.1);'',
    ''            }'',
    ''            video {'',
    ''                max-width: 100%;'',
    ''                border-radius: 4px;'',
    ''            }'',
    ''        </style>'',
    ''    </head>''
  ]\<close>

definition html_lines_body :: "string list" where
  \<open>html_lines_body = [
    ''    <body>'',
    ''        <h1>Simli Face Selection</h1>'',
    ''        '',
    ''        <div class="container">'',
    ''            <div id="error" class="error" style="display: none;"></div>'',
    ''            '',
    ''            <div class="two-column">'',
    ''                <div class="left-column">'',
    ''                    <div class="form-container">'',
    ''                        <h2>Create Agent</h2>'',
    ''                        <form id="agentForm">'',
    ''                            <input type="hidden" id="face_id" name="face_id" value="">'',
    ''                            '',
    ''                            <div class="form-group">'',
    ''                                <label for="name" class="required-field">Name</label>'',
    ''                                <input type="text" id="name" name="name" value="Untitled Agent" required>'',
    ''                            </div>'',
    ''                            '',
    ''                            <div class="form-group">'',
    ''                                <label for="first_message">First Message</label>'',
    ''                                <textarea id="first_message" name="first_message">The first message you want the agent to say</textarea>'',
    ''                            </div>'',
    ''                            '',
    ''                            <div class="form-group">'',
    ''                                <label for="prompt">Prompt</label>'',
    ''                                <textarea id="prompt" name="prompt">The persona of the agent and the context of the conversation</textarea>'',
    ''                            </div>'',
    ''                            '',
    ''                            <div class="form-group">'',
    ''                                <label for="voice_provider">Voice Provider</label>'',
    ''                                <select id="voice_provider" name="voice_provider">'',
    ''                                    <option value="elevenlabs">Elevenlabs</option>'',
    ''                                    <option value="cartesia">Cartesia</option>'',
    ''                                </select>'',
    ''                            </div>'',
    ''                            '',
    ''                            <div class="form-group">'',
    ''                                <label for="voice_id">Voice ID</label>'',
    ''                                <input type="text" id="voice_id" name="voice_id">'',
    ''                            </div>'',
    ''                            '',
    ''                            <div class="form-group">'',
    ''                                <label for="voice_model">Voice Model</label>'',
    ''                                <input type="text" id="voice_model" name="voice_model" placeholder="e.g., sonic-english">'',
    ''                            </div>'',
    ''                            '',
    ''                            <div class="form-group">'',
    ''                                <label for="language">Language</label>'',
    ''                                <input type="text" id="language" name="language">'',
    ''                            </div>'',
    ''                            '',
    ''                            <div class="form-group">'',
    ''                                <label for="llm_endpoint">LLM Endpoint</label>'',
    ''                                <input type="text" id="llm_endpoint" name="llm_endpoint">'',
    ''                            </div>'',
    ''                            '',
    ''                            <div class="form-group">'',
    ''                                <label for="max_idle_time">Max Idle Time (seconds)</label>'',
    ''                                <input type="number" id="max_idle_time" name="max_idle_time" value="300">'',
    ''                            </div>'',
    ''                            '',
    ''                            <div class="form-group">'',
    ''                                <label for="max_session_length">Max Session Length (seconds)</label>'',
    ''                                <input type="number" id="max_session_length" name="max_session_length" value="3600">'',
    ''                            </div>'',
    ''                            '',
    ''                            <button type="submit" class="submit-button">Create Agent</button>'',
    ''                        </form>'',
    ''                        '',
    ''                        <div id="successContainer" class="success-container" style="display: none;">'',
    ''                            <h3>Agent Created Successfully!</h3>'',
    ''                            <p>Your agent has been created with the following details:</p>'',
    ''                            <div id="agentDetails" class="agent-details">'',
    ''                                <div>Name: <span id="createdAgentName"></span></div>'',
    ''                                <div>Face ID: <span id="createdAgentFaceId"></span></div>'',
    ''                                <div>Agent ID: <span id="createdAgentId" class="agent-id"></span> '',
    ''                                    <button onclick="copyAgentId()" class="copy-button">Copy ID</button>'',
    ''                                </div>'',
    ''                            </div>'',
    ''                        </div>'',
    ''                    </div>'',
    ''                </div>'',
    ''                '',
    ''                <div class="right-column">'',
    ''                    <div class="selection-container">'',
    ''                        <h2>Select a Face</h2>'',
    ''                        <select id="faceSelect" onchange="updateSelectedFace()">'',
    ''                            <option value="">Select a face...</option>'',
    ''                        </select>'',
    ''                        '',
    ''                        <div id="loading" class="loading">Loading faces...</div>'',
    ''                        <div id="facesGrid" class="faces-grid"></div>'',
    ''                    </div>'',
    ''                </div>'',
    ''            </div>'',
    ''            '',
    ''            <div id="videoPreview" class="video-container" style="display: none;">'',
    ''                <h2>Video Preview</h2>'',
    ''                <video id="videoPlayer" controls autoplay loop muted></video>'',
    ''            </div>'',
    ''            '',
    ''            <!-- New session token section -->'',
    ''            <div class="session-container">'',
    ''                <h2>Create E2E Session Token</h2>'',
    ''                <form id="sessionTokenForm">'',
    ''                    <div class="form-group">'',
    ''                        <label for="simliAPIKey">Simli API Key</label>''
  ]\<close>

definition html_lines_keys :: "string list" where
  \<open>html_lines_keys = [
    ''                    </div>'',
    ''                    '',
    ''                    <div class="form-group">'',
    ''                        <label for="ttsAPIKey">TTS API Key</label>''
  ]\<close>

definition html_lines_body_end :: "string list" where
  \<open>html_lines_body_end = [
    ''                    </div>'',
    ''                    '',
    ''                    <button type="submit" class="submit-button">Create Session Token</button>'',
    ''                </form>'',
    ''                '',
    ''                <div id="tokenSuccessContainer" class="success-container" style="display: none;">'',
    ''                    <h3>Session Token Created Successfully!</h3>'',
    ''                    <div id="tokenDetails" class="token-details">'',
    ''                        <div>Token: <span id="createdToken" class="token-value"></span> '',
    ''                            <button onclick="copyToken()" class="copy-button">Copy Token</button>'',
    ''                        </div>'',
    ''                    </div>'',
    ''                </div>'',
    ''            </div>'',
    ''        </div>'',
    ''''
  ]\<close>

definition html_lines_script :: "string list" where
  \<open>html_lines_script = [
    ''        <script>'',
    ''            // Global variables'',
    ''            let faces = [];'',
    ''            let selectedFaceId = '' @ [CHR 0x27, CHR 0x27] @ '';'',
    ''            '',
    ''            // API endpoint for agent creation'',
    ''            const CREATE_AGENT_ENDPOINT = "https://api.simli.ai/agent";'',
    ''            '',
    ''            // DOM Elements'',
    ''            const faceSelect = document.getElementById('faceSelect');'',
    ''            const facesGrid = document.getElementById('facesGrid');'',
    ''            const loadingElement = document.getElementById('loading');'',
    ''            const errorElement = document.getElementById('error');'',
    ''            const videoPreview = document.getElementById('videoPreview');'',
    ''            const videoPlayer = document.getElementById('videoPlayer');'',
    ''            const agentForm = document.getElementById('agentForm');'',
    ''            const faceIdInput = document.getElementById('face_id');'',
    ''            const successContainer = document.getElementById('successContainer');'',
    ''            const createdAgentName = document.getElementById('createdAgentName');'',
    ''            const createdAgentFaceId = document.getElementById('createdAgentFaceId');'',
    ''            const createdAgentId = document.getElementById('createdAgentId');'',
    ''            '',
    ''            // Session token elements'',
    ''            const sessionTokenForm = document.getElementById('sessionTokenForm');'',
    ''            const tokenSuccessContainer = document.getElementById('tokenSuccessContainer');'',
    ''            const createdToken = document.getElementById('createdToken');'',
    ''            '',
    ''            // Load faces on page load'',
    ''            document.addEventListener('DOMContentLoaded', loadFaces);'',
    ''            '',
    ''            // Add form submission handlers'',
    ''            agentForm.addEventListener('submit', submitAgentForm);'',
    ''            sessionTokenForm.addEventListener('submit', submitSessionTokenForm);'',
    ''            '',
    ''            // Functions to interact with the API'',
    ''            async function loadFaces() {'',
    ''                try {'',
    ''                    showLoading(true);'',
    ''                    const response = await fetch('/api/faces');'',
    ''                    '',
    ''                    if (!response.ok) {'',
    ''                        throw new Error(`API error: ${response.status} ${response.statusText}`);'',
    ''                    }'',
    ''                    '',
    ''                    faces = await response.json();'',
    ''                    '',
    ''                    if (!faces || faces.length === 0) {'',
    ''                        showError('No faces available. Please check your API key and try again.');'',
    ''                        return;'',
    ''                    }'',
    ''                    '',
    ''                    // Populate dropdown and face cards'',
    ''                    populateFaceOptions(faces);'',
    ''                    createFaceCards(faces);'',
    ''                    '',
    ''                    showLoading(false);'',
    ''                } catch (error) {'',
    ''                    console.error('Error loading faces:', error);'',
    ''                    showError(`Failed to load faces: ${error.message}`);'',
    ''                    showLoading(false);'',
    ''                }'',
    ''            }'',
    ''            '',
    ''            function populateFaceOptions(faces) {'',
    ''                // Clear existing options'',
    ''                faceSelect.innerHTML = '<option value="">Select a face...</option>';'',
    ''                '',
    ''                // Add new options'',
    ''                faces.forEach(face => {'',
    ''                    const option = document.createElement('option');'',
    ''                    option.value = face.id;'',
    ''                    option.textContent = face.name;'',
    ''                    faceSelect.appendChild(option);'',
    ''                });'',
    ''            }'',
    ''            '',
    ''            function createFaceCards(faces) {'',
    ''                facesGrid.innerHTML = '' @ [CHR 0x27, CHR 0x27] @ '';'',
    ''                '',
    ''                faces.forEach(face => {'',
    ''                    const card = document.createElement('div');'',
    ''                    card.className = 'face-card';'',
    ''                    card.dataset.id = face.id;'',
    ''                    card.onclick = () => selectFace(face.id);'',
    ''                    '',
    ''                    card.innerHTML = `'',
    ''                        <img src="${face.previewImage}" alt="${face.name}" class="face-image" onerror="this.src='https://via.placeholder.com/300x200?text=Image+Not+Available'">'',
    ''                        <div class="face-info">'',
    ''                            <div class="face-name">${face.name}</div>'',
    ''                            <div class="face-id">${face.id}</div>'',
    ''                        </div>'',
    ''                    `;'',
    ''                    '',
    ''                    facesGrid.appendChild(card);'',
    ''                });'',
    ''            }'',
    ''            '',
    ''            function selectFace(faceId) {'',
    ''                selectedFaceId = faceId;'',
    ''                '',
    ''                // Update dropdown'',
    ''                faceSelect.value = faceId;'',
    ''                '',
    ''                // Update hidden form field'',
    ''                faceIdInput.value = faceId;'',
    ''                '',
    ''                // Update card selection'',
    ''                document.querySelectorAll('.face-card').forEach(card => {'',
    ''                    if (card.dataset.id === faceId) {'',
    ''                        card.classList.add('selected');'',
    ''                    } else {'',
    ''                        card.classList.remove('selected');'',
    ''                    }'',
    ''                });'',
    ''                '',
    ''                // Find the selected face'',
    ''                const selectedFace = faces.find(face => face.id === faceId);'',
    ''                '',
    ''                // Update video preview'',
    ''                if (selectedFace && selectedFace.previewVideo) {'',
    ''                    videoPlayer.src = selectedFace.previewVideo;'',
    ''                    videoPreview.style.display = 'block';'',
    ''                    '',
    ''                    // Automatically scroll to video preview'',
    ''                    setTimeout(() => {'',
    ''                        videoPreview.scrollIntoView({ behavior: 'smooth', block: 'start' });'',
    ''                    }, 100);'',
    ''                } else {'',
    ''                    videoPreview.style.display = 'none';'',
    ''                }'',
    ''            }'',
    ''            '',
    ''            function updateSelectedFace() {'',
    ''                const faceId = faceSelect.value;'',
    ''                if (faceId) {'',
    ''                    selectFace(faceId);'',
    ''                }'',
    ''            }'',
    ''            '',
    ''            function showLoading(isLoading) {'',
    ''                loadingElement.style.display = isLoading ? 'block' : 'none';'',
    ''            }'',
    ''            '',
    ''            function showError(message) {'',
    ''                errorElement.textContent = message;'',
    ''                errorElement.style.display = message ? 'block' : 'none';'',
    ''            }'',
    ''            '',
    ''            async function submitAgentForm(e) {'',
    ''                e.preventDefault();'',
    ''                '',
    ''                // Hide success message if shown previously'',
    ''                successContainer.style.display = 'none';'',
    ''                '',
    ''                // Validate that a face is selected'',
    ''                if (!selectedFaceId) {'',
    ''                    showError('Please select a face before creating an agent');'',
    ''                    return;'',
    ''                }'',
    ''                '',
    ''                // Get form data'',
    ''                const formData = new FormData(agentForm);'',
    ''                const agentData = {};'',
    ''                '',
    ''                // Convert FormData to JSON object'',
    ''                for (const [key, value] of formData.entries()) {'',
    ''                    // Convert numeric values to numbers'',
    ''                    if (key === 'max_idle_time' || key === 'max_session_length') {'',
    ''                        agentData[key] = parseInt(value);'',
    ''                    } else {'',
    ''                        agentData[key] = value;'',
    ''                    }'',
    ''                }'',
    ''                '',
    ''                try {'',
    ''                    const response = await fetch(CREATE_AGENT_ENDPOINT, {'',
    ''                        method: 'POST','',
    ''                        headers: {'',
    ''                            'Content-Type': 'application/json',''
  ]\<close>

definition html_lines_script_end :: "string list" where
  \<open>html_lines_script_end = [
    ''                        },'',
    ''                        body: JSON.stringify(agentData)'',
    ''                    });'',
    ''                    '',
    ''                    if (!response.ok) {'',
    ''                        const errorData = await response.json();'',
    ''                        throw new Error(errorData.detail || 'Failed to create agent');'',
    ''                    }'',
    ''                    '',
    ''                    const createdAgent = await response.json();'',
    ''                    '',
    ''                    // Display success message with agent details'',
    ''                    createdAgentName.textContent = createdAgent.name;'',
    ''                    createdAgentFaceId.textContent = createdAgent.face_id;'',
    ''                    createdAgentId.textContent = createdAgent.id;'',
    ''                    successContainer.style.display = 'block';'',
    ''                    '',
    ''                    // Scroll to success message'',
    ''                    successContainer.scrollIntoView({ behavior: 'smooth', block: 'start' });'',
    ''                    '',
    ''                } catch (error) {'',
    ''                    console.error('Error creating agent:', error);'',
    ''                    showError(`Failed to create agent: ${error.message}`);'',
    ''                }'',
    ''            }'',
    ''            '',
    ''            async function submitSessionTokenForm(e) {'',
    ''                e.preventDefault();'',
    ''                '',
    ''                // Hide token success message if shown previously'',
    ''                tokenSuccessContainer.style.display = 'none';'',
    ''                '',
    ''                // Get form data'',
    ''                const formData = new FormData(sessionTokenForm);'',
    ''                const tokenData = {};'',
    ''                '',
    ''                // Convert FormData to JSON object'',
    ''                for (const [key, value] of formData.entries()) {'',
    ''                    tokenData[key] = value;'',
    ''                }'',
    ''                '',
    ''                try {'',
    ''                    const response = await fetch('/api/createE2ESessionToken', {'',
    ''                        method: 'POST','',
    ''                        headers: {'',
    ''                            'Content-Type': 'application/json'' @ [CHR 0x27],
    ''                        },'',
    ''                        body: JSON.stringify(tokenData)'',
    ''                    });'',
    ''                    '',
    ''                    if (!response.ok) {'',
    ''                        const errorData = await response.json();'',
    ''                        throw new Error(errorData.detail || 'Failed to create session token');'',
    ''                    }'',
    ''                    '',
    ''                    const result = await response.json();'',
    ''                    console.log(result);'',
    ''                    // Display success message with token'',
    ''                    createdToken.textContent = result.session_token;'',
    ''                    tokenSuccessContainer.style.display = 'block';'',
    ''                    '',
    ''                    // Scroll to token success message'',
    ''                    tokenSuccessContainer.scrollIntoView({ behavior: 'smooth', block: 'start' });'',
    ''                    '',
    ''                } catch (error) {'',
    ''                    console.error('Error creating session token:', error);'',
    ''                    showError(`Failed to create session token: ${error.message}`);'',
    ''                }'',
    ''            }'',
    ''            '',
    ''            function copyAgentId() {'',
    ''                const agentId = createdAgentId.textContent;'',
    ''                navigator.clipboard.writeText(agentId)'',
    ''                    .then(() => {'',
    ''                        alert('Agent ID copied to clipboard!');'',
    ''                    })'',
    ''                    .catch(err => {'',
    ''                        console.error('Could not copy text: ', err);'',
    ''                    });'',
    ''            }'',
    ''            '',
    ''            function copyToken() {'',
    ''                const token = createdToken.textContent;'',
    ''                navigator.clipboard.writeText(token)'',
    ''                    .then(() => {'',
    ''                        alert('Session token copied to clipboard!');'',
    ''                    })'',
    ''                    .catch(err => {'',
    ''                        console.error('Could not copy text: ', err);'',
    ''                    });'',
    ''            }'',
    ''        </script>'',
    ''    </body>'',
    ''    </html>''
  ]\<close>

definition html_simli_input_open :: string where
  \<open>html_simli_input_open = ''                        <input type="text" id="simliAPIKey" name="simliAPIKey" value=''\<close>

definition html_simli_input_close :: string where
  \<open>html_simli_input_close = ''>''\<close>

definition html_tts_input_open :: string where
  \<open>html_tts_input_open = ''                        <input type="text" id="ttsAPIKey" name="ttsAPIKey" value=''\<close>

definition html_tts_input_close :: string where
  \<open>html_tts_input_close = ''>''\<close>

definition html_fetch_header_open :: string where
  \<open>html_fetch_header_open = ''                            'x-simli-api-key': ''\<close>

definition html_fetch_header_close :: string where
  \<open>html_fetch_header_close = '' // Assuming you need the same API key''\<close>

definition html_part_1 :: string where
  "html_part_1 =
     [CHR 0x0A] @ join_lines html_lines_head @ join_lines html_lines_body @ html_simli_input_open"

definition html_part_2 :: string where
  "html_part_2 =
     html_simli_input_close @ [CHR 0x0A] @ join_lines html_lines_keys @ html_tts_input_open"

definition html_part_3 :: string where
  "html_part_3 =
     html_tts_input_close @ [CHR 0x0A] @ join_lines html_lines_body_end
     @ join_lines html_lines_script @ html_fetch_header_open"

definition html_part_4 :: string where
  "html_part_4 =
     html_fetch_header_close @ [CHR 0x0A] @ join_lines html_lines_script_end @ ''    ''"

definition html_template :: string where
  \<open>html_template =
     html_part_1 @ ''"SIMLI_API_KEY"'' @ html_part_2 @ ''"TTS_API_KEY"'' @ html_part_3
     @ [CHR 0x27] @ ''SIMLI_API_KEY'' @ [CHR 0x27] @ html_part_4\<close>

definition get_html :: "config \<Rightarrow> html_reply" where
  "get_html cfg =
     \<lparr>html_status = 200,
      body = str_replace ''TTS_API_KEY'' (TTS_API_KEY cfg)
               (str_replace ''SIMLI_API_KEY'' (SIMLI_API_KEY cfg) html_template)\<rparr>"

section \<open>Test doubles\<close>

text \<open>
  An upstream service that answers every call with the same response, one that answers
  a GET with its first and every other call with its second response, and a validator
  that converts nothing.
\<close>

definition upstream_always :: "httpx_response \<Rightarrow> upstream" where
  "upstream_always r req = Some r"

definition upstream_routes :: "httpx_response \<Rightarrow> httpx_response \<Rightarrow> upstream" where
  "upstream_routes faces_response token_response req =
     (if verb req = GET then Some faces_response else Some token_response)"

definition strict :: pydantic where
  "strict = \<lparr>lax_str = (\<lambda>v. None), lax_int = (\<lambda>v. None), lax_dict = (\<lambda>v. None)\<rparr>"

section \<open>Facts about the string operations\<close>

lemma startswith_iff: "startswith s p \<longleftrightarrow> (\<exists>r. s = p @ r)"
  by (induction s p rule: startswith.induct) auto

lemma str_contains_iff: "str_contains s sub \<longleftrightarrow> (\<exists>a b. s = a @ sub @ b)"
proof (induction s)
  case Nil
  then show ?case by auto
next
  case (Cons c cs)
  show ?case
  proof
    assume "str_contains (c # cs) sub"
    then consider "startswith (c # cs) sub" | "str_contains cs sub" by auto
    then show "\<exists>a b. c # cs = a @ sub @ b"
    proof cases
      case 1
      then obtain r where "c # cs = sub @ r" by (auto simp: startswith_iff)
      then have "c # cs = [] @ sub @ r" by simp
      then show ?thesis by blast
    next
      case 2
      then obtain a b where "cs = a @ sub @ b" using Cons.IH by blast
      then have "c # cs = (c # a) @ sub @ b" by simp
      then show ?thesis by blast
    qed
  next
    assume "\<exists>a b. c # cs = a @ sub @ b"
    then obtain a b where ab: "c # cs = a @ sub @ b" by blast
    show "str_contains (c # cs) sub"
    proof (cases a)
      case Nil
      then have "startswith (c # cs) sub" using ab by (auto simp: startswith_iff)
      then show ?thesis by simp
    next
      case (Cons x a')
      then have "cs = a' @ sub @ b" using ab by simp
      then have "str_contains cs sub" using Cons.IH by blast
      then show ?thesis by simp
    qed
  qed
qed

lemma str_contains_suffix: "str_contains (a @ s) s"
proof -
  have "a @ s = a @ s @ []" by simp
  then show ?thesis unfolding str_contains_iff by blast
qed

lemma str_replace_Nil: "old \<noteq> [] \<Longrightarrow> str_replace old new [] = []"
  by (simp add: str_replace.simps)

lemma str_replace_match:
  assumes "old \<noteq> []"
  shows "str_replace old new (old @ r) = new @ str_replace old new r"
proof -
  have "startswith (old @ r) old" by (simp add: startswith_iff)
  moreover have "old @ r \<noteq> []" using assms by simp
  ultimately show ?thesis
    using assms by (subst str_replace.simps) simp
qed

lemma str_replace_skip:
  assumes "old \<noteq> []" and "\<not> startswith (c # cs) old"
  shows "str_replace old new (c # cs) = c # str_replace old new cs"
  using assms by (subst str_replace.simps) simp

lemma str_replace_self: "old \<noteq> [] \<Longrightarrow> str_replace old new old = new"
  using str_replace_match [of old new "[]"] by (simp add: str_replace_Nil)

lemma startswith_append_delim:
  assumes "d \<notin> set old"
  shows "startswith (a @ d # b) old \<longleftrightarrow> startswith a old"
proof
  assume "startswith a old"
  then show "startswith (a @ d # b) old" by (auto simp: startswith_iff)
next
  assume "startswith (a @ d # b) old"
  then obtain r where r: "a @ d # b = old @ r" by (auto simp: startswith_iff)
  show "startswith a old"
  proof (cases "length old \<le> length a")
    case True
    then have "old = take (length old) a"
      using r by (metis append_eq_conv_conj take_append diff_is_0_eq take_0 append_Nil2)
    then have "a = old @ drop (length old) a" by (metis append_take_drop_id)
    then show ?thesis unfolding startswith_iff by blast
  next
    case False
    then have "length a < length old" by simp
    then have "old ! length a = (a @ d # b) ! length a"
      using r by (metis nth_append)
    then have "old ! length a = d" by simp
    with \<open>length a < length old\<close> have "d \<in> set old" by (metis nth_mem)
    with assms show ?thesis by simp
  qed
qed

lemma str_replace_append_delim:
  assumes "old \<noteq> []" and "d \<notin> set old"
  shows "str_replace old new (a @ d # b) = str_replace old new a @ d # str_replace old new b"
  using assms
proof (induction old new a rule: str_replace.induct)
  case (1 old new s)
  show ?case
  proof (cases s)
    case Nil
    have "\<not> startswith (d # b) old"
      using "1.prems" by (cases old) auto
    then show ?thesis
      using Nil "1.prems" by (simp add: str_replace_skip str_replace_Nil)
  next
    case (Cons c cs)
    show ?thesis
    proof (cases "startswith s old")
      case True
      then obtain r where r: "s = old @ r" by (auto simp: startswith_iff)
      have "str_replace old new (drop (length old) s @ d # b)
              = str_replace old new (drop (length old) s) @ d # str_replace old new b"
        using "1.IH"(1) "1.prems" Cons True by simp
      then have "str_replace old new (r @ d # b) = str_replace old new r @ d # str_replace old new b"
        using r by simp
      then show ?thesis
        using r "1.prems" str_replace_match [of old new "r @ d # b"] str_replace_match [of old new r]
        by simp
    next
      case False
      then have no: "\<not> startswith (c # (cs @ d # b)) old"
        using startswith_append_delim [OF "1.prems"(2), of s b] Cons by simp
      have "str_replace old new (tl s @ d # b)
              = str_replace old new (tl s) @ d # str_replace old new b"
        using "1.IH"(2) "1.prems" Cons False by simp
      then show ?thesis
        using Cons False no "1.prems" by (simp add: str_replace_skip)
    qed
  qed
qed

lemma str_replace_absent:
  assumes "old \<noteq> []" and "\<not> str_contains s old"
  shows "str_replace old new s = s"
  using assms
proof (induction s)
  case Nil
  then show ?case by (simp add: str_replace_Nil)
next
  case (Cons c cs)
  then show ?case by (simp add: str_replace_skip)
qed

lemma startswith_replace_fresh:
  assumes "old \<noteq> []" and "c \<notin> set p" and "startswith (str_replace old [c] s) p"
  shows "startswith s p"
  using assms
proof (induction old "[c]" s arbitrary: p rule: str_replace.induct)
  case (1 old s)
  show ?case
  proof (cases p)
    case Nil
    then show ?thesis by simp
  next
    case (Cons q p')
    show ?thesis
    proof (cases s)
      case Nil
      then show ?thesis using "1.prems" Cons by (simp add: str_replace_Nil)
    next
      case s: (Cons x xs)
      show ?thesis
      proof (cases "startswith s old")
        case True
        then obtain r where "s = old @ r" by (auto simp: startswith_iff)
        then have "str_replace old [c] s = c # str_replace old [c] r"
          using "1.prems"(1) by (simp add: str_replace_match)
        then show ?thesis using "1.prems" Cons by auto
      next
        case False
        then have eq: "str_replace old [c] s = x # str_replace old [c] xs"
          using s "1.prems"(1) by (simp add: str_replace_skip)
        then have "x = q" and "startswith (str_replace old [c] xs) p'"
          using "1.prems"(3) Cons by auto
        moreover have "c \<notin> set p'" using "1.prems"(2) Cons by simp
        ultimately have "startswith xs p'"
          using "1.hyps"(2) [of p'] "1.prems"(1) s False by simp
        then show ?thesis using \<open>x = q\<close> s Cons by simp
      qed
    qed
  qed
qed

lemma str_replace_removes:
  assumes "old \<noteq> []" and "c \<notin> set old"
  shows "\<not> str_contains (str_replace old [c] s) old"
  using assms
proof (induction old "[c]" s rule: str_replace.induct)
  case (1 old s)
  show ?case
  proof (cases s)
    case Nil
    then show ?thesis using "1.prems" by (simp add: str_replace_Nil)
  next
    case s: (Cons x xs)
    show ?thesis
    proof (cases "startswith s old")
      case True
      then obtain r where r: "s = old @ r" by (auto simp: startswith_iff)
      then have eq: "str_replace old [c] s = c # str_replace old [c] r"
        using "1.prems"(1) by (simp add: str_replace_match)
      have "drop (length old) s = r" using r by simp
      then have "\<not> str_contains (str_replace old [c] r) old"
        using "1.hyps"(1) "1.prems" s True by simp
      moreover have "\<not> startswith (c # str_replace old [c] r) old"
        using "1.prems" by (cases old) auto
      ultimately show ?thesis using eq by simp
    next
      case False
      then have eq: "str_replace old [c] s = x # str_replace old [c] xs"
        using s "1.prems"(1) by (simp add: str_replace_skip)
      have "\<not> str_contains (str_replace old [c] xs) old"
        using "1.hyps"(2) "1.prems" s False by simp
      moreover have "\<not> startswith (str_replace old [c] s) old"
        using startswith_replace_fresh [OF "1.prems"(1) "1.prems"(2)] False by blast
      ultimately show ?thesis using eq by simp
    qed
  qed
qed

section \<open>Facts about the handlers and the response models\<close>

lemma get_faces_not_200:
  assumes "up (faces_request cfg) = Some r" and "status_code r \<noteq> 200"
  shows "get_api_faces P cfg up w =
           (Inl (HTTPException (status_code r) (''Error fetching faces from Simli API: '' @ text r)),
            w\<lparr>sent := sent w @ [faces_request cfg]\<rparr>)"
  using assms by (simp add: get_api_faces_def get_faces_def client_send_def)

lemma create_token_not_200:
  assumes "up (token_request request) = Some r" and "status_code r \<noteq> 200"
  shows "post_api_createE2ESessionToken P up request w =
           (Inl (HTTPException (status_code r) (''Error creating session token: '' @ text r)),
            w\<lparr>sent := sent w @ [token_request request]\<rparr>)"
  using assms by (simp add: post_api_createE2ESessionToken_def create_e2e_session_token_def client_send_def)

lemma those_map_None:
  assumes "x \<in> set xs" and "f x = None"
  shows "those (map f xs) = None"
  using assms by (induction xs) (auto split: option.splits)

lemma those_map_inverse:
  assumes "\<And>y. f (g y) = Some y"
  shows "those (map f (map g ys)) = Some ys"
  by (induction ys) (simp_all add: assms)

lemma validate_FaceOption_json: "validate_FaceOption P (FaceOption_json f) = Some f"
  by (cases f) (simp add: validate_FaceOption_def FaceOption_json_def split: option.splits)

lemma validate_FaceOption_required:
  assumes "map_of fs ''id'' = None \<or> map_of fs ''name'' = None \<or> map_of fs ''previewImage'' = None"
  shows "validate_FaceOption P (JObj fs) = None"
  using assms by (auto simp: validate_FaceOption_def Option.bind_eq_None_conv)

lemma get_faces_200:
  assumes "up (faces_request cfg) = Some r" and "status_code r = 200" and "json r = Some j"
  shows "get_api_faces P cfg up w =
           (case validate_list (validate_FaceOption P) j of
              None \<Rightarrow> (Inl ResponseValidationError, w\<lparr>sent := sent w @ [faces_request cfg]\<rparr>)
            | Some faces \<Rightarrow> (Inr \<lparr>status = 200, content = JArr (map FaceOption_json faces)\<rparr>,
                             w\<lparr>sent := sent w @ [faces_request cfg]\<rparr>))"
  using assms by (simp add: get_api_faces_def get_faces_def client_send_def)

lemma create_token_200:
  assumes "up (token_request request) = Some r" and "status_code r = 200" and "json r = Some j"
  shows "post_api_createE2ESessionToken P up request w =
           (case validate_SessionTokenResponse P j of
              None \<Rightarrow> (Inl ResponseValidationError, w\<lparr>sent := sent w @ [token_request request]\<rparr>)
            | Some t \<Rightarrow> (Inr \<lparr>status = 200, content = SessionTokenResponse_json t\<rparr>,
                         w\<lparr>sent := sent w @ [token_request request]\<rparr>))"
  using assms by (simp add: post_api_createE2ESessionToken_def create_e2e_session_token_def client_send_def)

lemma get_api_faces_reply:
  assumes "fst (get_api_faces P cfg up w) = Inr reply"
  shows "\<exists>faces. reply = \<lparr>status = 200, content = JArr (map FaceOption_json faces)\<rparr>"
  using assms
  by (auto simp: get_api_faces_def get_faces_def client_send_def
           split: option.splits if_splits prod.splits sum.splits)

lemma create_token_reply:
  assumes "fst (post_api_createE2ESessionToken P up request w) = Inr reply"
  shows "\<exists>t. reply = \<lparr>status = 200, content = SessionTokenResponse_json t\<rparr>"
  using assms
  by (auto simp: post_api_createE2ESessionToken_def create_e2e_session_token_def client_send_def
           split: option.splits if_splits prod.splits sum.splits)


lemma FaceOption_json_keys:
  "\<exists>fs. FaceOption_json f = JObj fs
     \<and> map fst fs = [''id'', ''name'', ''previewImage'', ''previewVideo'', ''createdAt'']"
  unfolding FaceOption_json_def by (intro exI conjI, rule refl) (simp only: list.map fst_conv)

lemma validate_list_None:
  assumes "x \<in> set xs" and "f x = None"
  shows "validate_list f (JArr xs) = None"
  using those_map_None [where f = f and x = x and xs = xs, OF assms] by (simp only: validate_list.simps)

section \<open>Facts about the page\<close>

text \<open>
  Each key's name stands between two quotation marks that are in neither name, so both
  replacements work on the pieces of the page one by one: the body is the pieces with
  the keys in between, and the first key has gone through the second replacement.
\<close>

lemma get_html_body:
  "body (get_html cfg) =
     str_replace ''TTS_API_KEY'' (TTS_API_KEY cfg) (str_replace ''SIMLI_API_KEY'' (SIMLI_API_KEY cfg) html_part_1)
     @ CHR 0x22 # str_replace ''TTS_API_KEY'' (TTS_API_KEY cfg) (SIMLI_API_KEY cfg)
     @ CHR 0x22 # str_replace ''TTS_API_KEY'' (TTS_API_KEY cfg) (str_replace ''SIMLI_API_KEY'' (SIMLI_API_KEY cfg) html_part_2)
     @ CHR 0x22 # TTS_API_KEY cfg
     @ CHR 0x22 # str_replace ''TTS_API_KEY'' (TTS_API_KEY cfg) (str_replace ''SIMLI_API_KEY'' (SIMLI_API_KEY cfg) html_part_3)
     @ CHR 0x27 # str_replace ''TTS_API_KEY'' (TTS_API_KEY cfg) (SIMLI_API_KEY cfg)
     @ CHR 0x27 # str_replace ''TTS_API_KEY'' (TTS_API_KEY cfg) (str_replace ''SIMLI_API_KEY'' (SIMLI_API_KEY cfg) html_part_4)"
proof -
  define S :: string where "S = ''SIMLI_API_KEY''"
  define T :: string where "T = ''TTS_API_KEY''"
  define simli where "simli = SIMLI_API_KEY cfg"
  define tts where "tts = TTS_API_KEY cfg"
  have shape: "html_template =
      html_part_1 @ CHR 0x22 # (S @ CHR 0x22 # (html_part_2 @ CHR 0x22 # (T @ CHR 0x22 #
        (html_part_3 @ CHR 0x27 # (S @ CHR 0x27 # html_part_4)))))"
    by (simp add: html_template_def S_def T_def)
  have S: "S \<noteq> []" "CHR 0x22 \<notin> set S" "CHR 0x27 \<notin> set S"
    by (simp_all add: S_def)
  have T: "T \<noteq> []" "CHR 0x22 \<notin> set T" "CHR 0x27 \<notin> set T"
    by (simp_all add: T_def)
  have "\<not> str_contains T S" by (simp add: S_def T_def)
  then have keep: "str_replace S simli T = T"
    using S(1) by (rule str_replace_absent [rotated])
  have first: "str_replace S simli html_template =
      str_replace S simli html_part_1 @ CHR 0x22 # (simli @ CHR 0x22 #
        (str_replace S simli html_part_2 @ CHR 0x22 # (T @ CHR 0x22 #
          (str_replace S simli html_part_3 @ CHR 0x27 # (simli @ CHR 0x27 #
            str_replace S simli html_part_4)))))"
    by (simp only: shape str_replace_append_delim [OF S(1) S(2)]
          str_replace_append_delim [OF S(1) S(3)] str_replace_self [OF S(1)] keep)
  have second: "str_replace T tts (str_replace S simli html_template) =
      str_replace T tts (str_replace S simli html_part_1) @ CHR 0x22 # (str_replace T tts simli @ CHR 0x22 #
        (str_replace T tts (str_replace S simli html_part_2) @ CHR 0x22 # (tts @ CHR 0x22 #
          (str_replace T tts (str_replace S simli html_part_3) @ CHR 0x27 # (str_replace T tts simli @ CHR 0x27 #
            str_replace T tts (str_replace S simli html_part_4))))))"
    by (simp only: first str_replace_append_delim [OF T(1) T(2)]
          str_replace_append_delim [OF T(1) T(3)] str_replace_self [OF T(1)])
  have "body (get_html cfg) = str_replace T tts (str_replace S simli html_template)"
    by (simp add: get_html_def S_def T_def simli_def tts_def)
  then show ?thesis
    unfolding second by (simp only: S_def T_def simli_def tts_def append_assoc append_Cons)
qed

lemma get_html_contains_tts: "str_contains (body (get_html cfg)) (TTS_API_KEY cfg)"
  unfolding str_contains_iff by (subst get_html_body) (metis append_Cons append_Nil append_assoc)

lemma get_html_contains_simli:
  assumes "\<not> str_contains (SIMLI_API_KEY cfg) ''TTS_API_KEY''"
  shows "str_contains (body (get_html cfg)) (SIMLI_API_KEY cfg)"
proof -
  have "str_replace ''TTS_API_KEY'' (TTS_API_KEY cfg) (SIMLI_API_KEY cfg) = SIMLI_API_KEY cfg"
    using assms by (intro str_replace_absent) simp_all
  then show ?thesis
    unfolding str_contains_iff by (subst get_html_body) (metis append_Cons append_Nil append_assoc)
qed

section \<open>Properties of agent creation\<close>

text \<open>
  C1. For every AgentCreate input, POST /api/agent succeeds with status 201 and returns an
  AgentResponse whose face_id and name are those of the input and whose id is "agent-"
  followed by the first 8 characters of face_id when face_id has at least 8 characters,
  and by the whole face_id when it is shorter.
\<close>

theorem create_agent_id:
  "\<exists>r. create_agent up agent w = (Inr r, w)
     \<and> post_api_agent up agent w = (Inr \<lparr>status = 201, content = AgentResponse_json r\<rparr>, w)
     \<and> AgentResponse.face_id r = AgentCreate.face_id agent
     \<and> AgentResponse.name r = AgentCreate.name agent
     \<and> (8 \<le> length (AgentCreate.face_id agent) \<longrightarrow>
          (\<exists>first8 rest. AgentCreate.face_id agent = first8 @ rest \<and> length first8 = 8
             \<and> AgentResponse.id r = ''agent-'' @ first8))
     \<and> (length (AgentCreate.face_id agent) < 8 \<longrightarrow>
          AgentResponse.id r = ''agent-'' @ AgentCreate.face_id agent)"
proof -
  let ?f = "AgentCreate.face_id agent"
  let ?r = "\<lparr>id = ''agent-'' @ take 8 ?f, face_id = ?f, name = AgentCreate.name agent\<rparr>"
  have run: "create_agent up agent w = (Inr ?r, w)"
    by (simp add: create_agent_def)
  have route: "post_api_agent up agent w = (Inr \<lparr>status = 201, content = AgentResponse_json ?r\<rparr>, w)"
    by (simp add: post_api_agent_def run)
  have long: "8 \<le> length ?f \<longrightarrow>
      (\<exists>first8 rest. ?f = first8 @ rest \<and> length first8 = 8 \<and> AgentResponse.id ?r = ''agent-'' @ first8)"
  proof
    assume len: "8 \<le> length ?f"
    have "?f = take 8 ?f @ drop 8 ?f" by simp
    moreover have "length (take 8 ?f) = 8" using len by simp
    moreover have "AgentResponse.id ?r = ''agent-'' @ take 8 ?f" by simp
    ultimately show "\<exists>first8 rest. ?f = first8 @ rest \<and> length first8 = 8
        \<and> AgentResponse.id ?r = ''agent-'' @ first8"
      by blast
  qed
  have short: "length ?f < 8 \<longrightarrow> AgentResponse.id ?r = ''agent-'' @ ?f"
    by simp
  from run route long short show ?thesis
    by (intro exI [of _ ?r]) simp
qed

theorem create_agent_id_witness:
  "8 \<le> length ''tmp9i8bbq7c''
   \<and> fst (post_api_agent (\<lambda>_. None)
        \<lparr>AgentCreate.face_id = ''tmp9i8bbq7c'', name = ''Ada'', first_message = None, prompt = None,
         voice_provider = None, voice_id = None, voice_model = None, language = None,
         llm_endpoint = None, max_idle_time = Some 300, max_session_length = Some 3600\<rparr>
        \<lparr>sent = []\<rparr>)
     = Inr \<lparr>status = 201,
            content = JObj [(''id'', JStr ''agent-tmp9i8bb''), (''face_id'', JStr ''tmp9i8bbq7c''),
                            (''name'', JStr ''Ada'')]\<rparr>
   \<and> length ''abc'' < 8
   \<and> fst (post_api_agent (\<lambda>_. None)
        \<lparr>AgentCreate.face_id = ''abc'', name = ''Bob'', first_message = None, prompt = None,
         voice_provider = None, voice_id = None, voice_model = None, language = None,
         llm_endpoint = None, max_idle_time = Some 300, max_session_length = Some 3600\<rparr>
        \<lparr>sent = []\<rparr>)
     = Inr \<lparr>status = 201,
            content = JObj [(''id'', JStr ''agent-abc''), (''face_id'', JStr ''abc''),
                            (''name'', JStr ''Bob'')]\<rparr>"
  using
    create_agent_id [of "\<lambda>_. None"
      "\<lparr>AgentCreate.face_id = ''tmp9i8bbq7c'', name = ''Ada'', first_message = None, prompt = None,
        voice_provider = None, voice_id = None, voice_model = None, language = None,
        llm_endpoint = None, max_idle_time = Some 300, max_session_length = Some 3600\<rparr>"
      "\<lparr>sent = []\<rparr>"]
    create_agent_id [of "\<lambda>_. None"
      "\<lparr>AgentCreate.face_id = ''abc'', name = ''Bob'', first_message = None, prompt = None,
        voice_provider = None, voice_id = None, voice_model = None, language = None,
        llm_endpoint = None, max_idle_time = Some 300, max_session_length = Some 3600\<rparr>"
      "\<lparr>sent = []\<rparr>"]
  by (auto simp: AgentResponse_json_def create_agent_def)

text \<open>
  C5. For every AgentCreate input, handling POST /api/agent sends no call to any upstream
  system and has no side effect: the world, and so the log of calls sent, is left as it
  was, and the reply is the same whatever the upstream service and the world are; it
  is a reply, never a failure.
\<close>

theorem create_agent_no_outbound_call:
  "snd (post_api_agent up agent w) = w
   \<and> sent (snd (post_api_agent up agent w)) = sent w
   \<and> fst (post_api_agent up agent w) = fst (post_api_agent up' agent w')
   \<and> (\<exists>reply. fst (post_api_agent up agent w) = Inr reply)"
  by (simp add: post_api_agent_def create_agent_def)

text \<open>
  C10. The reply of POST /api/agent depends on the face_id and the name of the input only:
  two inputs that agree on both get the same reply, whatever their other fields are.
\<close>

theorem create_agent_depends_on_face_id_and_name:
  assumes "AgentCreate.face_id a = AgentCreate.face_id b"
    and "AgentCreate.name a = AgentCreate.name b"
  shows "post_api_agent up a w = post_api_agent up b w"
  using assms by (simp add: post_api_agent_def create_agent_def)

theorem create_agent_depends_on_face_id_and_name_witness:
  "post_api_agent (\<lambda>_. None)
      \<lparr>AgentCreate.face_id = ''tmp9i8bbq7c'', name = ''Ada'',
       first_message = Some ''The first message you want the agent to say'',
       prompt = Some ''The persona of the agent and the context of the conversation'',
       voice_provider = None, voice_id = None, voice_model = None, language = None,
       llm_endpoint = None, max_idle_time = Some 300, max_session_length = Some 3600\<rparr>
      \<lparr>sent = []\<rparr>
   = post_api_agent (\<lambda>_. None)
      \<lparr>AgentCreate.face_id = ''tmp9i8bbq7c'', name = ''Ada'',
       first_message = Some ''Hello'', prompt = None,
       voice_provider = Some ''elevenlabs'', voice_id = Some ''v1'', voice_model = Some ''m'',
       language = Some ''en'', llm_endpoint = Some ''https://llm.example'',
       max_idle_time = Some 10, max_session_length = None\<rparr>
      \<lparr>sent = []\<rparr>"
  by (rule create_agent_depends_on_face_id_and_name) simp_all

section \<open>Properties of the two proxy routes\<close>

text \<open>
  C3. For every upstream response whose status code is not a 2xx code, the face-listing
  route and the session-token route fail with an HTTP error of that same status code whose
  detail contains the upstream response text.
\<close>

theorem upstream_error_propagated:
  assumes "status_code r < 200 \<or> 299 < status_code r"
  shows "(up (faces_request cfg) = Some r \<longrightarrow>
            (\<exists>detail. fst (get_api_faces P cfg up w) = Inl (HTTPException (status_code r) detail)
               \<and> str_contains detail (text r)))
       \<and> (up (token_request request) = Some r \<longrightarrow>
            (\<exists>detail. fst (post_api_createE2ESessionToken P up request w)
                 = Inl (HTTPException (status_code r) detail)
               \<and> str_contains detail (text r)))"
proof (intro conjI impI)
  from assms have ne: "status_code r \<noteq> 200" by auto
  {
    assume u: "up (faces_request cfg) = Some r"
    have "fst (get_api_faces P cfg up w)
            = Inl (HTTPException (status_code r) (''Error fetching faces from Simli API: '' @ text r))"
      by (simp only: get_faces_not_200 [where up = up and cfg = cfg and r = r, OF u ne] fst_conv)
    moreover have "str_contains (''Error fetching faces from Simli API: '' @ text r) (text r)"
      by (rule str_contains_suffix)
    ultimately show "\<exists>detail. fst (get_api_faces P cfg up w) = Inl (HTTPException (status_code r) detail)
        \<and> str_contains detail (text r)"
      by blast
  }
  {
    assume u: "up (token_request request) = Some r"
    have "fst (post_api_createE2ESessionToken P up request w)
            = Inl (HTTPException (status_code r) (''Error creating session token: '' @ text r))"
      by (simp only: create_token_not_200 [where up = up and request = request and r = r, OF u ne] fst_conv)
    moreover have "str_contains (''Error creating session token: '' @ text r) (text r)"
      by (rule str_contains_suffix)
    ultimately show "\<exists>detail. fst (post_api_createE2ESessionToken P up request w)
          = Inl (HTTPException (status_code r) detail)
        \<and> str_contains detail (text r)"
      by blast
  }
qed

theorem upstream_error_propagated_witness:
  "(let r = \<lparr>status_code = 404, text = ''{\"detail\":\"Not Found\"}'', json = None\<rparr>;
        up = (\<lambda>_. Some r);
        P = \<lparr>lax_str = (\<lambda>_. None), lax_int = (\<lambda>_. None), lax_dict = (\<lambda>_. None)\<rparr>;
        cfg = \<lparr>SIMLI_API_KEY = ''k1'', TTS_API_KEY = ''k2''\<rparr>;
        request = \<lparr>simliAPIKey = ''a'', ttsAPIKey = ''b''\<rparr>;
        w = \<lparr>sent = []\<rparr>
    in (status_code r < 200 \<or> 299 < status_code r)
       \<and> up (faces_request cfg) = Some r
       \<and> up (token_request request) = Some r
       \<and> (\<exists>detail. fst (get_api_faces P cfg up w) = Inl (HTTPException 404 detail)
             \<and> str_contains detail (text r))
       \<and> (\<exists>detail. fst (post_api_createE2ESessionToken P up request w) = Inl (HTTPException 404 detail)
             \<and> str_contains detail (text r)))"
  using upstream_error_propagated
    [of "\<lparr>status_code = 404, text = ''{\"detail\":\"Not Found\"}'', json = None\<rparr>"
        "\<lambda>_. Some \<lparr>status_code = 404, text = ''{\"detail\":\"Not Found\"}'', json = None\<rparr>"
        "\<lparr>SIMLI_API_KEY = ''k1'', TTS_API_KEY = ''k2''\<rparr>"
        "\<lparr>lax_str = (\<lambda>_. None), lax_int = (\<lambda>_. None), lax_dict = (\<lambda>_. None)\<rparr>"
        "\<lparr>sent = []\<rparr>"
        "\<lparr>simliAPIKey = ''a'', ttsAPIKey = ''b''\<rparr>"]
  by (simp add: Let_def)

text \<open>
  C8. Both proxy handlers take every upstream status code other than 200 for a failure:
  for an upstream response with a status from 201 to 299, the face-listing route and the
  session-token route raise an HTTP error with that status code and return no body of
  the upstream.
\<close>

theorem only_200_is_success:
  assumes "201 \<le> status_code r" and "status_code r \<le> 299"
  shows "(up (faces_request cfg) = Some r \<longrightarrow>
            (\<exists>detail. fst (get_api_faces P cfg up w) = Inl (HTTPException (status_code r) detail)))
       \<and> (up (token_request request) = Some r \<longrightarrow>
            (\<exists>detail. fst (post_api_createE2ESessionToken P up request w)
                 = Inl (HTTPException (status_code r) detail)))"
proof (intro conjI impI)
  from assms have ne: "status_code r \<noteq> 200" by auto
  {
    assume u: "up (faces_request cfg) = Some r"
    show "\<exists>detail. fst (get_api_faces P cfg up w) = Inl (HTTPException (status_code r) detail)"
      by (simp only: get_faces_not_200 [where up = up and cfg = cfg and r = r, OF u ne] fst_conv) blast
  }
  {
    assume u: "up (token_request request) = Some r"
    show "\<exists>detail. fst (post_api_createE2ESessionToken P up request w)
          = Inl (HTTPException (status_code r) detail)"
      by (simp only: create_token_not_200 [where up = up and request = request and r = r, OF u ne] fst_conv) blast
  }
qed

theorem only_200_is_success_witness:
  "(let r = \<lparr>status_code = 201, text = ''[]'', json = Some (JArr [])\<rparr>;
        up = (\<lambda>_. Some r);
        P = \<lparr>lax_str = (\<lambda>_. None), lax_int = (\<lambda>_. None), lax_dict = (\<lambda>_. None)\<rparr>;
        cfg = \<lparr>SIMLI_API_KEY = ''k1'', TTS_API_KEY = ''k2''\<rparr>;
        request = \<lparr>simliAPIKey = ''a'', ttsAPIKey = ''b''\<rparr>;
        w = \<lparr>sent = []\<rparr>
    in 201 \<le> status_code r \<and> status_code r \<le> 299
       \<and> up (faces_request cfg) = Some r
       \<and> up (token_request request) = Some r
       \<and> (\<exists>detail. fst (get_api_faces P cfg up w) = Inl (HTTPException 201 detail))
       \<and> (\<exists>detail. fst (post_api_createE2ESessionToken P up request w) = Inl (HTTPException 201 detail)))"
  using only_200_is_success
    [of "\<lparr>status_code = 201, text = ''[]'', json = Some (JArr [])\<rparr>"
        "\<lambda>_. Some \<lparr>status_code = 201, text = ''[]'', json = Some (JArr [])\<rparr>"
        "\<lparr>SIMLI_API_KEY = ''k1'', TTS_API_KEY = ''k2''\<rparr>"
        "\<lparr>lax_str = (\<lambda>_. None), lax_int = (\<lambda>_. None), lax_dict = (\<lambda>_. None)\<rparr>"
        "\<lparr>sent = []\<rparr>"
        "\<lparr>simliAPIKey = ''a'', ttsAPIKey = ''b''\<rparr>"]
  by (simp add: Let_def)

text \<open>
  C9. A successful reply of GET /api/faces and of POST /api/createE2ESessionToken goes
  through the declared response model: the token reply has the member session_token and
  no other, every face of the faces reply has the five members of FaceOption and no other,
  so a member of the upstream JSON outside the model is not in the reply; an upstream
  success body that lacks a required member (session_token; id, name or previewImage of a
  face) gives a server-side validation error and is not forwarded.
\<close>

theorem response_models_applied:
  "(fst (post_api_createE2ESessionToken P up request w) = Inr reply \<longrightarrow>
      (\<exists>t. content reply = JObj [(''session_token'', JStr t)]))
   \<and> (fst (get_api_faces P cfg up w) = Inr reply' \<longrightarrow>
      (\<exists>items. content reply' = JArr items
         \<and> (\<forall>item \<in> set items. \<exists>fs. item = JObj fs
               \<and> map fst fs = [''id'', ''name'', ''previewImage'', ''previewVideo'', ''createdAt''])))
   \<and> (up (token_request request) = Some r \<and> status_code r = 200 \<and> json r = Some (JObj fs)
        \<and> map_of fs ''session_token'' = None \<longrightarrow>
      fst (post_api_createE2ESessionToken P up request w) = Inl ResponseValidationError)
   \<and> (up (faces_request cfg) = Some r' \<and> status_code r' = 200 \<and> json r' = Some (JArr items')
        \<and> JObj fs' \<in> set items'
        \<and> (map_of fs' ''id'' = None \<or> map_of fs' ''name'' = None \<or> map_of fs' ''previewImage'' = None) \<longrightarrow>
      fst (get_api_faces P cfg up w) = Inl ResponseValidationError)"
proof (intro conjI impI)
  assume "fst (post_api_createE2ESessionToken P up request w) = Inr reply"
  then obtain t where "reply = \<lparr>status = 200, content = SessionTokenResponse_json t\<rparr>"
    using create_token_reply by blast
  then have "content reply = JObj [(''session_token'', JStr (session_token t))]"
    by (simp only: SessionTokenResponse_json_def http_reply.simps)
  then show "\<exists>t. content reply = JObj [(''session_token'', JStr t)]"
    by (rule exI)
next
  assume "fst (get_api_faces P cfg up w) = Inr reply'"
  then obtain faces where "reply' = \<lparr>status = 200, content = JArr (map FaceOption_json faces)\<rparr>"
    using get_api_faces_reply by blast
  then have c: "content reply' = JArr (map FaceOption_json faces)"
    by (simp only: http_reply.simps)
  have "\<exists>fs. item = JObj fs
      \<and> map fst fs = [''id'', ''name'', ''previewImage'', ''previewVideo'', ''createdAt'']"
    if "item \<in> set (map FaceOption_json faces)" for item
  proof -
    from that obtain f where "item = FaceOption_json f" by (auto simp only: set_map)
    then show ?thesis using FaceOption_json_keys [of f] by (simp only:)
  qed
  with c show "\<exists>items. content reply' = JArr items
      \<and> (\<forall>item \<in> set items. \<exists>fs. item = JObj fs
            \<and> map fst fs = [''id'', ''name'', ''previewImage'', ''previewVideo'', ''createdAt''])"
    by blast
next
  assume a: "up (token_request request) = Some r \<and> status_code r = 200 \<and> json r = Some (JObj fs)
      \<and> map_of fs ''session_token'' = None"
  then have u: "up (token_request request) = Some r" and s: "status_code r = 200"
    and j: "json r = Some (JObj fs)" and m: "map_of fs ''session_token'' = None"
    by simp_all
  have "validate_SessionTokenResponse P (JObj fs) = None"
    using m by (simp add: validate_SessionTokenResponse_def)
  then show "fst (post_api_createE2ESessionToken P up request w) = Inl ResponseValidationError"
    by (simp add: create_token_200 [where up = up and request = request and r = r, OF u s j])
next
  assume a: "up (faces_request cfg) = Some r' \<and> status_code r' = 200 \<and> json r' = Some (JArr items')
      \<and> JObj fs' \<in> set items'
      \<and> (map_of fs' ''id'' = None \<or> map_of fs' ''name'' = None \<or> map_of fs' ''previewImage'' = None)"
  then have u: "up (faces_request cfg) = Some r'" and s: "status_code r' = 200"
    and j: "json r' = Some (JArr items')" and mem: "JObj fs' \<in> set items'"
    and m: "map_of fs' ''id'' = None \<or> map_of fs' ''name'' = None \<or> map_of fs' ''previewImage'' = None"
    by simp_all
  have "validate_FaceOption P (JObj fs') = None"
    using m by (rule validate_FaceOption_required)
  with mem have "validate_list (validate_FaceOption P) (JArr items') = None"
    by (rule validate_list_None)
  then show "fst (get_api_faces P cfg up w) = Inl ResponseValidationError"
    by (simp add: get_faces_200 [where up = up and cfg = cfg and r = r', OF u s j])
qed

theorem response_models_applied_witness:
  "fst (post_api_createE2ESessionToken strict
          (upstream_routes
             \<lparr>status_code = 200, text = ''[]'',
              json = Some (JArr [JObj [(''id'', JStr ''f1''), (''name'', JStr ''Ann''),
                                       (''previewImage'', JStr ''a.png''), (''owner'', JStr ''me'')]])\<rparr>
             \<lparr>status_code = 200, text = ''{}'',
              json = Some (JObj [(''session_token'', JStr ''tok''), (''expires_in'', JInt 3600)])\<rparr>)
          \<lparr>simliAPIKey = ''a'', ttsAPIKey = ''b''\<rparr> \<lparr>sent = []\<rparr>)
     = Inr \<lparr>status = 200, content = JObj [(''session_token'', JStr ''tok'')]\<rparr>
   \<and> fst (get_api_faces strict \<lparr>SIMLI_API_KEY = ''key'', TTS_API_KEY = ''tts''\<rparr>
          (upstream_routes
             \<lparr>status_code = 200, text = ''[]'',
              json = Some (JArr [JObj [(''id'', JStr ''f1''), (''name'', JStr ''Ann''),
                                       (''previewImage'', JStr ''a.png''), (''owner'', JStr ''me'')]])\<rparr>
             \<lparr>status_code = 200, text = ''{}'',
              json = Some (JObj [(''session_token'', JStr ''tok''), (''expires_in'', JInt 3600)])\<rparr>)
          \<lparr>sent = []\<rparr>)
     = Inr \<lparr>status = 200,
            content = JArr [JObj [(''id'', JStr ''f1''), (''name'', JStr ''Ann''),
                                  (''previewImage'', JStr ''a.png''), (''previewVideo'', JNull),
                                  (''createdAt'', JNull)]]\<rparr>
   \<and> map_of [(''token'', JStr ''tok'')] ''session_token'' = None
   \<and> fst (post_api_createE2ESessionToken strict
          (upstream_routes
             \<lparr>status_code = 200, text = ''[]'',
              json = Some (JArr [JObj [(''id'', JStr ''f1''), (''name'', JStr ''Ann'')]])\<rparr>
             \<lparr>status_code = 200, text = ''{}'', json = Some (JObj [(''token'', JStr ''tok'')])\<rparr>)
          \<lparr>simliAPIKey = ''a'', ttsAPIKey = ''b''\<rparr> \<lparr>sent = []\<rparr>)
     = Inl ResponseValidationError
   \<and> map_of [(''id'', JStr ''f1''), (''name'', JStr ''Ann'')] ''previewImage'' = None
   \<and> fst (get_api_faces strict \<lparr>SIMLI_API_KEY = ''key'', TTS_API_KEY = ''tts''\<rparr>
          (upstream_routes
             \<lparr>status_code = 200, text = ''[]'',
              json = Some (JArr [JObj [(''id'', JStr ''f1''), (''name'', JStr ''Ann'')]])\<rparr>
             \<lparr>status_code = 200, text = ''{}'', json = Some (JObj [(''token'', JStr ''tok'')])\<rparr>)
          \<lparr>sent = []\<rparr>)
     = Inl ResponseValidationError"
proof -
  let ?P = strict
  let ?cfg = "\<lparr>SIMLI_API_KEY = ''key'', TTS_API_KEY = ''tts''\<rparr>"
  let ?req = "\<lparr>simliAPIKey = ''a'', ttsAPIKey = ''b''\<rparr>"
  let ?w = "\<lparr>sent = []\<rparr>"
  let ?rF = "\<lparr>status_code = 200, text = ''[]'',
              json = Some (JArr [JObj [(''id'', JStr ''f1''), (''name'', JStr ''Ann''),
                                       (''previewImage'', JStr ''a.png''), (''owner'', JStr ''me'')]])\<rparr>"
  let ?rT = "\<lparr>status_code = 200, text = ''{}'',
              json = Some (JObj [(''session_token'', JStr ''tok''), (''expires_in'', JInt 3600)])\<rparr>"
  let ?rF' = "\<lparr>status_code = 200, text = ''[]'',
              json = Some (JArr [JObj [(''id'', JStr ''f1''), (''name'', JStr ''Ann'')]])\<rparr>"
  let ?rT' = "\<lparr>status_code = 200, text = ''{}'', json = Some (JObj [(''token'', JStr ''tok'')])\<rparr>"
  let ?replyT = "\<lparr>status = 200, content = JObj [(''session_token'', JStr ''tok'')]\<rparr>"
  let ?replyF = "\<lparr>status = 200,
            content = JArr [JObj [(''id'', JStr ''f1''), (''name'', JStr ''Ann''),
                                  (''previewImage'', JStr ''a.png''), (''previewVideo'', JNull),
                                  (''createdAt'', JNull)]]\<rparr>"
  have tok: "fst (post_api_createE2ESessionToken ?P (upstream_routes ?rF ?rT) ?req ?w) = Inr ?replyT"
    by (simp add: post_api_createE2ESessionToken_def create_e2e_session_token_def client_send_def
          upstream_routes_def token_request_def validate_SessionTokenResponse_def
          SessionTokenResponse_json_def)
  have faces: "fst (get_api_faces ?P ?cfg (upstream_routes ?rF ?rT) ?w) = Inr ?replyF"
    by (simp add: get_api_faces_def get_faces_def client_send_def upstream_routes_def
          faces_request_def validate_FaceOption_def FaceOption_json_def)
  have upT: "upstream_routes ?rF' ?rT' (token_request ?req) = Some ?rT'"
    by (simp add: upstream_routes_def token_request_def)
  have upF: "upstream_routes ?rF' ?rT' (faces_request ?cfg) = Some ?rF'"
    by (simp add: upstream_routes_def faces_request_def)
  note ok = response_models_applied
    [where P = ?P and up = "upstream_routes ?rF ?rT" and request = ?req and w = ?w and cfg = ?cfg
       and reply = ?replyT and reply' = ?replyF]
  note missing = response_models_applied
    [where P = ?P and up = "upstream_routes ?rF' ?rT'" and request = ?req and w = ?w and cfg = ?cfg
       and r = ?rT' and fs = "[(''token'', JStr ''tok'')]"
       and r' = ?rF' and items' = "[JObj [(''id'', JStr ''f1''), (''name'', JStr ''Ann'')]]"
       and fs' = "[(''id'', JStr ''f1''), (''name'', JStr ''Ann'')]"]
  from ok tok faces missing upT upF show ?thesis
    by simp
qed

text \<open>
  C2, as the code has it. The claim speaks of every 2xx response and of every body. The
  handler takes status 200 only (C8), and the reply goes through the response model (C9).
  For every upstream response to the face-list request with status 200 whose JSON body
  is an array of faces in the form of the model (the five members of FaceOption in the
  declared order, a string or null for previewVideo, an integer or null for createdAt),
  GET /api/faces sends one GET with the api-key header and replies 200 with exactly that
  body.
\<close>

theorem faces_passthrough_model_form:
  assumes "up (faces_request cfg) = Some r" and "status_code r = 200"
    and "json r = Some (JArr (map FaceOption_json faces))"
  shows "get_api_faces P cfg up w =
           (Inr \<lparr>status = 200, content = JArr (map FaceOption_json faces)\<rparr>,
            w\<lparr>sent := sent w @ [faces_request cfg]\<rparr>)"
proof -
  have "those (map (validate_FaceOption P) (map FaceOption_json faces)) = Some faces"
    by (rule those_map_inverse) (rule validate_FaceOption_json)
  then have "validate_list (validate_FaceOption P) (JArr (map FaceOption_json faces)) = Some faces"
    by (simp only: validate_list.simps)
  then show ?thesis
    by (simp add: get_faces_200 [where up = up and cfg = cfg and r = r, OF assms])
qed

theorem faces_passthrough_model_form_witness:
  "upstream_always
       \<lparr>status_code = 200, text = ''[]'',
        json = Some (JArr [JObj [(''id'', JStr ''f1''), (''name'', JStr ''Ann''),
                                 (''previewImage'', JStr ''a.png''), (''previewVideo'', JNull),
                                 (''createdAt'', JInt 1700000000)]])\<rparr>
       (faces_request \<lparr>SIMLI_API_KEY = ''key'', TTS_API_KEY = ''tts''\<rparr>)
     = Some \<lparr>status_code = 200, text = ''[]'',
        json = Some (JArr [JObj [(''id'', JStr ''f1''), (''name'', JStr ''Ann''),
                                 (''previewImage'', JStr ''a.png''), (''previewVideo'', JNull),
                                 (''createdAt'', JInt 1700000000)]])\<rparr>
   \<and> get_api_faces strict \<lparr>SIMLI_API_KEY = ''key'', TTS_API_KEY = ''tts''\<rparr>
        (upstream_always
           \<lparr>status_code = 200, text = ''[]'',
            json = Some (JArr [JObj [(''id'', JStr ''f1''), (''name'', JStr ''Ann''),
                                     (''previewImage'', JStr ''a.png''), (''previewVideo'', JNull),
                                     (''createdAt'', JInt 1700000000)]])\<rparr>)
        \<lparr>sent = []\<rparr>
     = (Inr \<lparr>status = 200,
             content = JArr [JObj [(''id'', JStr ''f1''), (''name'', JStr ''Ann''),
                                 (''previewImage'', JStr ''a.png''), (''previewVideo'', JNull),
                                 (''createdAt'', JInt 1700000000)]]\<rparr>,
        \<lparr>sent = [\<lparr>verb = GET, url = ''https://api.simli.ai/getFaceIDs?getPublic=false'',
                  headers = [(''api-key'', ''key'')], json_payload = None\<rparr>]\<rparr>)"
  using faces_passthrough_model_form
    [of "upstream_always
           \<lparr>status_code = 200, text = ''[]'',
            json = Some (JArr [JObj [(''id'', JStr ''f1''), (''name'', JStr ''Ann''),
                                     (''previewImage'', JStr ''a.png''), (''previewVideo'', JNull),
                                     (''createdAt'', JInt 1700000000)]])\<rparr>"
        "\<lparr>SIMLI_API_KEY = ''key'', TTS_API_KEY = ''tts''\<rparr>"
        "\<lparr>status_code = 200, text = ''[]'',
            json = Some (JArr [JObj [(''id'', JStr ''f1''), (''name'', JStr ''Ann''),
                                     (''previewImage'', JStr ''a.png''), (''previewVideo'', JNull),
                                     (''createdAt'', JInt 1700000000)]])\<rparr>"
        "[\<lparr>FaceOption.id = ''f1'', name = ''Ann'', previewImage = ''a.png'', previewVideo = None,
           createdAt = Some 1700000000\<rparr>]"
        strict "\<lparr>sent = []\<rparr>"]
  by (simp add: upstream_always_def FaceOption_json_def faces_request_def)

text \<open>
  The claim C2 as stated fails: an upstream 204 gives an HTTP error and no body, and an
  upstream 200 whose face has a member outside the model and no previewVideo and
  createdAt gives a body without the one and with the other two as null.
\<close>

theorem faces_passthrough_counterexample:
  "fst (get_api_faces strict \<lparr>SIMLI_API_KEY = ''key'', TTS_API_KEY = ''tts''\<rparr>
          (upstream_always \<lparr>status_code = 204, text = ''[]'', json = Some (JArr [])\<rparr>)
          \<lparr>sent = []\<rparr>)
     = Inl (HTTPException 204 ''Error fetching faces from Simli API: []'')
   \<and> fst (get_api_faces strict \<lparr>SIMLI_API_KEY = ''key'', TTS_API_KEY = ''tts''\<rparr>
          (upstream_always
             \<lparr>status_code = 200,
              text = ''[{\"id\":\"f1\",\"name\":\"Ann\",\"previewImage\":\"a.png\",\"owner\":\"me\"}]'',
              json = Some (JArr [JObj [(''id'', JStr ''f1''), (''name'', JStr ''Ann''),
                                       (''previewImage'', JStr ''a.png''), (''owner'', JStr ''me'')]])\<rparr>)
          \<lparr>sent = []\<rparr>)
     = Inr \<lparr>status = 200,
            content = JArr [JObj [(''id'', JStr ''f1''), (''name'', JStr ''Ann''),
                                  (''previewImage'', JStr ''a.png''), (''previewVideo'', JNull),
                                  (''createdAt'', JNull)]]\<rparr>"
  by (simp add: get_api_faces_def get_faces_def client_send_def upstream_always_def faces_request_def
        validate_FaceOption_def FaceOption_json_def strict_def)

text \<open>
  C4, as the code has it. For every SessionTokenRequest, POST /api/createE2ESessionToken
  sends exactly one call, a POST to the upstream session-token endpoint whose JSON body
  has the two keys of the caller and nothing else; when the upstream responds with
  status 200 and a JSON object whose session_token is a string, the reply is 200 with
  the object that has this session_token and no other member, which is the upstream
  body itself when that has no other member.
\<close>

theorem session_token_forwarded:
  "snd (post_api_createE2ESessionToken P up request w)
     = w\<lparr>sent := sent w @
          [\<lparr>verb = POST, url = ''https://api.simli.ai/createE2ESessionToken'', headers = [],
            json_payload = Some (JObj [(''simliAPIKey'', JStr (simliAPIKey request)),
                                       (''ttsAPIKey'', JStr (ttsAPIKey request))])\<rparr>]\<rparr>
   \<and> (up (token_request request) = Some r \<and> status_code r = 200 \<and> json r = Some (JObj fs)
        \<and> map_of fs ''session_token'' = Some (JStr t) \<longrightarrow>
      fst (post_api_createE2ESessionToken P up request w)
        = Inr \<lparr>status = 200, content = JObj [(''session_token'', JStr t)]\<rparr>)
   \<and> (up (token_request request) = Some r \<and> status_code r = 200
        \<and> json r = Some (JObj [(''session_token'', JStr t)]) \<longrightarrow>
      fst (post_api_createE2ESessionToken P up request w) = Inr \<lparr>status = 200, content = the (json r)\<rparr>)"
proof (intro conjI impI)
  show "snd (post_api_createE2ESessionToken P up request w)
     = w\<lparr>sent := sent w @
          [\<lparr>verb = POST, url = ''https://api.simli.ai/createE2ESessionToken'', headers = [],
            json_payload = Some (JObj [(''simliAPIKey'', JStr (simliAPIKey request)),
                                       (''ttsAPIKey'', JStr (ttsAPIKey request))])\<rparr>]\<rparr>"
    by (simp add: post_api_createE2ESessionToken_def create_e2e_session_token_def client_send_def
          token_request_def split: option.splits)
next
  assume a: "up (token_request request) = Some r \<and> status_code r = 200 \<and> json r = Some (JObj fs)
      \<and> map_of fs ''session_token'' = Some (JStr t)"
  then have "validate_SessionTokenResponse P (JObj fs) = Some \<lparr>session_token = t\<rparr>"
    by (simp add: validate_SessionTokenResponse_def)
  then show "fst (post_api_createE2ESessionToken P up request w)
      = Inr \<lparr>status = 200, content = JObj [(''session_token'', JStr t)]\<rparr>"
    using a create_token_200 [where up = up and request = request and r = r and j = "JObj fs"]
    by (simp add: SessionTokenResponse_json_def)
next
  assume a: "up (token_request request) = Some r \<and> status_code r = 200
      \<and> json r = Some (JObj [(''session_token'', JStr t)])"
  then have "validate_SessionTokenResponse P (JObj [(''session_token'', JStr t)]) = Some \<lparr>session_token = t\<rparr>"
    by (simp add: validate_SessionTokenResponse_def)
  then show "fst (post_api_createE2ESessionToken P up request w) = Inr \<lparr>status = 200, content = the (json r)\<rparr>"
    using a create_token_200 [where up = up and request = request and r = r
        and j = "JObj [(''session_token'', JStr t)]"]
    by (simp add: SessionTokenResponse_json_def)
qed

theorem session_token_forwarded_witness:
  "upstream_always
       \<lparr>status_code = 200, text = ''{}'',
        json = Some (JObj [(''session_token'', JStr ''tok''), (''expires_in'', JInt 3600)])\<rparr>
       (token_request \<lparr>simliAPIKey = ''a'', ttsAPIKey = ''b''\<rparr>)
     = Some \<lparr>status_code = 200, text = ''{}'',
        json = Some (JObj [(''session_token'', JStr ''tok''), (''expires_in'', JInt 3600)])\<rparr>
   \<and> map_of [(''session_token'', JStr ''tok''), (''expires_in'', JInt 3600)] ''session_token''
       = Some (JStr ''tok'')
   \<and> post_api_createE2ESessionToken strict
        (upstream_always
           \<lparr>status_code = 200, text = ''{}'',
            json = Some (JObj [(''session_token'', JStr ''tok''), (''expires_in'', JInt 3600)])\<rparr>)
        \<lparr>simliAPIKey = ''a'', ttsAPIKey = ''b''\<rparr> \<lparr>sent = []\<rparr>
     = (Inr \<lparr>status = 200, content = JObj [(''session_token'', JStr ''tok'')]\<rparr>,
        \<lparr>sent = [\<lparr>verb = POST, url = ''https://api.simli.ai/createE2ESessionToken'', headers = [],
                  json_payload = Some (JObj [(''simliAPIKey'', JStr ''a''), (''ttsAPIKey'', JStr ''b'')])\<rparr>]\<rparr>)
   \<and> fst (post_api_createE2ESessionToken strict
        (upstream_always
           \<lparr>status_code = 200, text = ''{}'', json = Some (JObj [(''session_token'', JStr ''tok'')])\<rparr>)
        \<lparr>simliAPIKey = ''a'', ttsAPIKey = ''b''\<rparr> \<lparr>sent = []\<rparr>)
     = Inr \<lparr>status = 200, content = JObj [(''session_token'', JStr ''tok'')]\<rparr>"
proof -
  let ?req = "\<lparr>simliAPIKey = ''a'', ttsAPIKey = ''b''\<rparr>"
  let ?w = "\<lparr>sent = []\<rparr>"
  let ?r1 = "\<lparr>status_code = 200, text = ''{}'',
        json = Some (JObj [(''session_token'', JStr ''tok''), (''expires_in'', JInt 3600)])\<rparr>"
  let ?r2 = "\<lparr>status_code = 200, text = ''{}'', json = Some (JObj [(''session_token'', JStr ''tok'')])\<rparr>"
  note extra = session_token_forwarded
    [where P = strict and up = "upstream_always ?r1" and request = ?req and w = ?w and r = ?r1
       and fs = "[(''session_token'', JStr ''tok''), (''expires_in'', JInt 3600)]" and t = "''tok''"]
  note exact = session_token_forwarded
    [where P = strict and up = "upstream_always ?r2" and request = ?req and w = ?w and r = ?r2
       and t = "''tok''"]
  have fs: "post_api_createE2ESessionToken strict (upstream_always ?r1) ?req ?w
      = (fst (post_api_createE2ESessionToken strict (upstream_always ?r1) ?req ?w),
         snd (post_api_createE2ESessionToken strict (upstream_always ?r1) ?req ?w))"
    by (simp only: prod.collapse)
  from extra exact show ?thesis
    by (subst fs) (simp add: upstream_always_def)
qed

text \<open>
  The claim C4 as stated fails: the upstream body is not returned unmodified when it has
  a member outside SessionTokenResponse.
\<close>

theorem session_token_passthrough_counterexample:
  "fst (post_api_createE2ESessionToken strict
          (upstream_always
             \<lparr>status_code = 200, text = ''{\"session_token\":\"tok\",\"expires_in\":3600}'',
              json = Some (JObj [(''session_token'', JStr ''tok''), (''expires_in'', JInt 3600)])\<rparr>)
          \<lparr>simliAPIKey = ''a'', ttsAPIKey = ''b''\<rparr> \<lparr>sent = []\<rparr>)
     = Inr \<lparr>status = 200, content = JObj [(''session_token'', JStr ''tok'')]\<rparr>
   \<and> JObj [(''session_token'', JStr ''tok'')]
     \<noteq> JObj [(''session_token'', JStr ''tok''), (''expires_in'', JInt 3600)]"
  by (simp add: post_api_createE2ESessionToken_def create_e2e_session_token_def client_send_def
        upstream_always_def validate_SessionTokenResponse_def SessionTokenResponse_json_def)

section \<open>Properties of the page and of the start\<close>

text \<open>
  C6. The claim is that for every pair of configured keys GET / replies 200 with a page
  that contains both keys. The page always contains the TTS key
  (\<open>get_html_contains_tts\<close>), and the SIMLI key whenever that does not contain the text
  TTS_API_KEY (\<open>get_html_contains_simli\<close>). The second replacement also runs over the
  SIMLI key the first one has put in: with SIMLI_API_KEY set to the text TTS_API_KEY and
  TTS_API_KEY set to x, the reply is 200 and the page does not contain the SIMLI key.
\<close>

theorem get_html_loses_simli_key:
  "html_status (get_html \<lparr>SIMLI_API_KEY = ''TTS_API_KEY'', TTS_API_KEY = ''x''\<rparr>) = 200
   \<and> \<not> str_contains (body (get_html \<lparr>SIMLI_API_KEY = ''TTS_API_KEY'', TTS_API_KEY = ''x''\<rparr>))
         ''TTS_API_KEY''"
proof -
  have "\<not> str_contains (str_replace ''TTS_API_KEY'' [CHR ''x''] s) ''TTS_API_KEY''" for s
    by (rule str_replace_removes) simp_all
  then show ?thesis by (simp add: get_html_def)
qed

text \<open>
  C7. When SIMLI_API_KEY or TTS_API_KEY is unset at the start of the process, the start
  does not fail: the missing key is the fixed placeholder text (which is then what the
  face request sends upstream), a warning is printed, and the page is served with
  status 200.
\<close>

theorem startup_without_keys:
  "(environ ''SIMLI_API_KEY'' = None \<longrightarrow>
      SIMLI_API_KEY (fst (startup environ)) = ''YOUR_API_KEY_HERE''
      \<and> headers (faces_request (fst (startup environ))) = [(''api-key'', ''YOUR_API_KEY_HERE'')]
      \<and> ''Warning: SIMLI_API_KEY not found in environment variables. Using default value for testing.''
          \<in> set (snd (startup environ)))
   \<and> (environ ''TTS_API_KEY'' = None \<longrightarrow>
      TTS_API_KEY (fst (startup environ)) = ''YOUR_TTS_API_KEY_HERE''
      \<and> ''Warning: TTS_API_KEY not found in environment variables. Using default value for testing.''
          \<in> set (snd (startup environ)))
   \<and> html_status (get_html (fst (startup environ))) = 200"
  by (simp add: startup_def Let_def get_html_def faces_request_def split: prod.splits)

theorem startup_without_keys_witness:
  "Map.empty ''SIMLI_API_KEY'' = None \<and> Map.empty ''TTS_API_KEY'' = None
   \<and> fst (startup Map.empty)
       = \<lparr>SIMLI_API_KEY = ''YOUR_API_KEY_HERE'', TTS_API_KEY = ''YOUR_TTS_API_KEY_HERE''\<rparr>
   \<and> snd (startup Map.empty) =
       [''Warning: SIMLI_API_KEY not found in environment variables. Using default value for testing.'',
        ''Warning: TTS_API_KEY not found in environment variables. Using default value for testing.'']
   \<and> html_status (get_html (fst (startup Map.empty))) = 200"
  using startup_without_keys [of Map.empty]
  by (simp add: startup_def Let_def)

end
